theory Spec2Isabelle
  imports Main "HOL-Library.Sublist" "HOL-Library.Char_ord" "HOL-Library.List_Lexorder"
begin

section \<open>Strings\<close>

text \<open>
  Python strings are modelled as \<open>string\<close>. The three string methods the script relies on
  are \<open>str.split(sep)\<close> with a one-character separator, \<open>sep.join(xs)\<close> and
  \<open>s.endswith(suffix)\<close>.
\<close>

fun str_split :: "char \<Rightarrow> string \<Rightarrow> string list" where
  "str_split sep [] = [[]]"
| "str_split sep (c # cs) =
     (if c = sep then [] # str_split sep cs
      else (case str_split sep cs of
              [] \<Rightarrow> [[c]]
            | w # ws \<Rightarrow> (c # w) # ws))"

fun str_join :: "string \<Rightarrow> string list \<Rightarrow> string" where
  "str_join sep [] = []"
| "str_join sep [x] = x"
| "str_join sep (x # y # ys) = x @ sep @ str_join sep (y # ys)"

definition endswith :: "string \<Rightarrow> string \<Rightarrow> bool" where
  "endswith s sfx = (length sfx \<le> length s \<and> drop (length s - length sfx) s = sfx)"

section \<open>Pure paths\<close>

text \<open>
  \<open>pathlib.Path\<close> on a POSIX host: a path is its root (\<open>''''\<close>, \<open>''/''\<close> or \<open>''//''\<close>) and
  the list of its components; empty components and \<open>''.''\<close> are dropped when the string is
  parsed. \<open>splitroot\<close> is \<open>posixpath.splitroot\<close> without the drive, which is always empty.
\<close>

record path =
  root :: string
  tail :: "string list"

definition splitroot :: "string \<Rightarrow> string \<times> string" where
  "splitroot p =
     (if take 1 p \<noteq> ''/'' then ([], p)
      else if take 1 (drop 1 p) \<noteq> ''/'' \<or> take 1 (drop 2 p) = ''/'' then (''/'', drop 1 p)
      else (take 2 p, drop 2 p))"

definition Path :: "string \<Rightarrow> path" where
  "Path s =
     (case splitroot s of
        (rt, rel) \<Rightarrow>
          \<lparr>root = rt,
           tail = filter (\<lambda>x. x \<noteq> [] \<and> x \<noteq> ''.'') (str_split CHR ''/'' rel)\<rparr>)"

definition parts :: "path \<Rightarrow> string list" where
  "parts p = (if root p \<noteq> [] then root p # tail p else tail p)"

definition path_name :: "path \<Rightarrow> string" where
  "path_name p = (if tail p = [] then [] else last (tail p))"

definition parent :: "path \<Rightarrow> path" where
  "parent p = (if tail p = [] then p else p\<lparr>tail := butlast (tail p)\<rparr>)"

definition str :: "path \<Rightarrow> string" where
  "str p = (if root p = [] \<and> tail p = [] then ''.'' else root p @ str_join ''/'' (tail p))"

section \<open>The path filter\<close>

definition IGNORE_NAMES :: "string set" where
  "IGNORE_NAMES =
     {''.git'', ''.github'', ''.vscode'', ''__pycache__'', ''.mypy_cache'',
      ''.pytest_cache'', ''.venv'', ''venv'', ''terminals''}"

definition IGNORE_SUFFIXES :: "string set" where
  "IGNORE_SUFFIXES = {''.pyc'', ''.pyo'', ''.pdb''}"

datatype filetype = REGTYPE | DIRTYPE | OTHERTYPE

record TarInfo =
  name :: string
  tartype :: filetype

definition tar_filter :: "TarInfo \<Rightarrow> TarInfo option" where
  "tar_filter tarinfo =
     (let path_parts = parts (Path (name tarinfo)) in
      if \<exists>part \<in> set path_parts. part \<in> IGNORE_NAMES then None
      else if \<exists>sfx \<in> IGNORE_SUFFIXES. endswith (path_name (Path (name tarinfo))) sfx
      then None
      else Some tarinfo)"

text \<open>
  The specification's wording of the same rule: the components are the pieces between
  directory separators, and the final name component is the last piece that names
  something (neither empty nor \<open>''.''\<close>).
\<close>

definition final_component :: "string \<Rightarrow> string" where
  "final_component s =
     (case filter (\<lambda>x. x \<noteq> [] \<and> x \<noteq> ''.'') (str_split CHR ''/'' s) of
        [] \<Rightarrow> []
      | c # cs \<Rightarrow> last (c # cs))"

definition spec_excluded :: "string \<Rightarrow> bool" where
  "spec_excluded s =
     ((\<exists>c \<in> set (str_split CHR ''/'' s). c \<in> IGNORE_NAMES) \<or>
      (\<exists>sfx \<in> IGNORE_SUFFIXES. endswith (final_component s) sfx))"

section \<open>The operator's machine\<close>

text \<open>
  The local file system is a tree. A regular file carries whether it can be opened for
  reading, a directory whether it can be listed and its entries in the order
  \<open>sorted(os.listdir(d))\<close> yields them. \<open>Other\<close> stands for the entries whose header alone
  is archived (symbolic links, fifos, devices), \<open>Unsupported\<close> for those
  \<open>TarFile.gettarinfo\<close> returns \<open>None\<close> for (sockets). Symbolic links are not followed by the
  model, and the temporary directory lies outside the source tree.
\<close>

datatype node = Reg bool | Dir bool "(string \<times> node) list" | Other | Unsupported

datatype error = SystemExit string | CalledProcessError "string list" | PermissionError

record env =
  which :: "string \<Rightarrow> bool"
  cwd :: "string list"
  fs :: node
  tmp_name :: string
  run_ok :: "string list \<Rightarrow> bool"
  remote_has_target :: bool

text \<open>
  \<open>which env cmd\<close> says that \<open>shutil.which(cmd)\<close> finds the command, \<open>cwd\<close> is the working
  directory as a list of components, \<open>fs\<close> the root directory, \<open>tmp_name\<close> the name
  \<open>NamedTemporaryFile\<close> will choose, \<open>run_ok cmd\<close> that the external command exits with
  status zero, and \<open>remote_has_target\<close> that the target directory exists on the device
  before the run.

  What an invocation changes: the temporary files it owns (with the members written to
  them), the external commands it has spawned, and the lines it has printed.
\<close>

record world =
  files :: "string \<rightharpoonup> TarInfo list"
  events :: "string list list"
  stdout :: "string list"

fun lookup_node :: "node \<Rightarrow> string list \<Rightarrow> node option" where
  "lookup_node n [] = Some n"
| "lookup_node (Dir listable entries) (c # cs) =
     (case map_of entries c of
        None \<Rightarrow> None
      | Some k \<Rightarrow> lookup_node k cs)"
| "lookup_node _ (c # cs) = None"

text \<open>
  \<open>Path.resolve()\<close> makes the path absolute and removes \<open>''..''\<close> components; \<open>''..''\<close> at
  the root stays at the root.
\<close>

fun normalise :: "string list \<Rightarrow> string list \<Rightarrow> string list" where
  "normalise acc [] = rev acc"
| "normalise acc (c # cs) =
     (if c = ''..'' then normalise (tl acc) cs else normalise (c # acc) cs)"

definition resolve :: "env \<Rightarrow> path \<Rightarrow> path" where
  "resolve env p =
     \<lparr>root = ''/'',
      tail = normalise [] (if root p = [] then cwd env @ tail p else tail p)\<rparr>"

definition node_at :: "env \<Rightarrow> path \<Rightarrow> node option" where
  "node_at env p = lookup_node (fs env) (tail (resolve env p))"

definition is_dir :: "env \<Rightarrow> path \<Rightarrow> bool" where
  "is_dir env p = (case node_at env p of Some (Dir listable entries) \<Rightarrow> True | _ \<Rightarrow> False)"

section \<open>The archive builder\<close>

definition os_path_join :: "string \<Rightarrow> string \<Rightarrow> string" where
  "os_path_join a b =
     (if take 1 b = ''/'' then b
      else if a = [] \<or> last a = CHR ''/'' then a @ b
      else a @ ''/'' @ b)"

definition gettarinfo :: "node \<Rightarrow> string \<Rightarrow> TarInfo option" where
  "gettarinfo n arcname =
     (let nm = dropWhile (\<lambda>c. c = CHR ''/'') arcname in
      case n of
        Reg readable \<Rightarrow> Some \<lparr>name = nm, tartype = REGTYPE\<rparr>
      | Dir listable entries \<Rightarrow> Some \<lparr>name = nm, tartype = DIRTYPE\<rparr>
      | Other \<Rightarrow> Some \<lparr>name = nm, tartype = OTHERTYPE\<rparr>
      | Unsupported \<Rightarrow> None)"

text \<open>
  \<open>TarFile.add(name, arcname, filter=tar_filter)\<close>: the members written, in order, and the
  exception that stopped the walk, if any. An excluded entry is neither opened nor
  descended into.
\<close>

fun tar_add :: "node \<Rightarrow> string \<Rightarrow> TarInfo list \<times> error option"
and add_entries :: "(string \<times> node) list \<Rightarrow> string \<Rightarrow> TarInfo list \<times> error option"
where
  "tar_add n arcname =
     (case gettarinfo n arcname of
        None \<Rightarrow> ([], None)
      | Some tarinfo0 \<Rightarrow>
          (case tar_filter tarinfo0 of
             None \<Rightarrow> ([], None)
           | Some tarinfo \<Rightarrow>
               (case n of
                  Reg readable \<Rightarrow>
                    if readable then ([tarinfo], None) else ([], Some PermissionError)
                | Dir listable entries \<Rightarrow>
                    if listable
                    then (case add_entries entries arcname of (ms, e) \<Rightarrow> (tarinfo # ms, e))
                    else ([tarinfo], Some PermissionError)
                | _ \<Rightarrow> ([tarinfo], None))))"
| "add_entries [] arcname = ([], None)"
| "add_entries ((f, n) # rest) arcname =
     (case tar_add n (os_path_join arcname f) of
        (ms, Some e) \<Rightarrow> (ms, Some e)
      | (ms, None) \<Rightarrow> (case add_entries rest arcname of (ms', e) \<Rightarrow> (ms @ ms', e)))"

definition build_archive :: "env \<Rightarrow> path \<Rightarrow> world \<Rightarrow> (error + string) \<times> world" where
  "build_archive env source w =
     (if \<not> is_dir env source
      then (Inl (SystemExit (''Source directory not found: '' @ str source)), w)
      else
        (let archive_path = tmp_name env;
             w1 = w\<lparr>files := (files w)(archive_path \<mapsto> [])\<rparr>
         in case tar_add (the (node_at env source)) (path_name source) of
              (members, Some e) \<Rightarrow> (Inl e, w1\<lparr>files := (files w1)(archive_path \<mapsto> members)\<rparr>)
            | (members, None) \<Rightarrow>
                (Inr archive_path, w1\<lparr>files := (files w1)(archive_path \<mapsto> members)\<rparr>)))"

section \<open>Shell quoting\<close>

text \<open>
  \<open>shlex.quote\<close>: the empty string becomes \<open>''\<close>; a string made of the characters
  \<open>[A-Za-z0-9_@%+=:,./-]\<close> only is returned as it is; any other string is wrapped in single
  quotes, each single quote of it written as \<open>'"'"'\<close>.
\<close>

definition sq :: char where
  "sq = CHR 0x27"

definition dq :: char where
  "dq = CHR 0x22"

definition safe_char :: "char \<Rightarrow> bool" where
  "safe_char c =
     (c \<in> set ''abcdefghijklmnopqrstuvwxyzABCDEFGHIJKLMNOPQRSTUVWXYZ0123456789_@%+=:,./-'')"

definition str_replace :: "char \<Rightarrow> string \<Rightarrow> string \<Rightarrow> string" where
  "str_replace old new s = concat (map (\<lambda>c. if c = old then new else [c]) s)"

definition quote :: "string \<Rightarrow> string" where
  "quote s =
     (if s = [] then [sq, sq]
      else if list_all safe_char s then s
      else [sq] @ str_replace sq [sq, dq, sq, dq, sq] s @ [sq])"

section \<open>The deployment\<close>

record args =
  arg_host :: string
  arg_remote_path :: string
  arg_source :: string
  arg_skip_backup :: bool

definition ensure_tools :: "env \<Rightarrow> error + unit" where
  "ensure_tools env =
     (let missing = filter (\<lambda>cmd. \<not> which env cmd) [''ssh'', ''scp''] in
      if missing \<noteq> []
      then Inl (SystemExit (''Missing required commands: '' @ str_join '', '' missing))
      else Inr ())"

text \<open>
  \<open>subprocess.run(cmd, check=True)\<close>: the command is spawned, and a non-zero exit status
  raises \<open>CalledProcessError\<close>.
\<close>

definition run :: "env \<Rightarrow> string list \<Rightarrow> world \<Rightarrow> (error + unit) \<times> world" where
  "run env cmd w =
     (let w' = w\<lparr>events := events w @ [cmd]\<rparr> in
      if run_ok env cmd then (Inr (), w') else (Inl (CalledProcessError cmd), w'))"

definition print :: "string \<Rightarrow> world \<Rightarrow> world" where
  "print line w = w\<lparr>stdout := stdout w @ [line]\<rparr>"

definition remote_tmp :: "path \<Rightarrow> string" where
  "remote_tmp remote_path = ''/tmp/'' @ path_name remote_path @ ''-deploy.tar.gz''"

definition remote_base :: "path \<Rightarrow> string" where
  "remote_base remote_path = str (parent remote_path)"

definition backup_cmd :: "path \<Rightarrow> bool \<Rightarrow> string" where
  "backup_cmd remote_path skip_backup =
     (if \<not> skip_backup
      then ''if [ -d '' @ quote (path_name remote_path) @ '' ]; then '' @
           ''TS=$(date +%Y%m%d%H%M%S); '' @
           ''tar czf '' @ quote (path_name remote_path) @ ''-backup-$TS.tar.gz '' @
           quote (path_name remote_path) @ ''; '' @
           ''fi;''
      else [])"

definition remote_cmd :: "path \<Rightarrow> bool \<Rightarrow> string" where
  "remote_cmd remote_path skip_backup =
     ''set -euo pipefail; '' @
     ''mkdir -p '' @ quote (remote_base remote_path) @ ''; '' @
     ''cd '' @ quote (remote_base remote_path) @ ''; '' @
     backup_cmd remote_path skip_backup @
     ''rm -rf '' @ quote (path_name remote_path) @ ''; '' @
     ''tar xzf '' @ quote (remote_tmp remote_path) @ '' -C '' @
       quote (remote_base remote_path) @ ''; '' @
     ''rm -f '' @ quote (remote_tmp remote_path)"

definition deploy ::
  "env \<Rightarrow> string \<Rightarrow> path \<Rightarrow> string \<Rightarrow> bool \<Rightarrow> world \<Rightarrow> (error + unit) \<times> world" where
  "deploy env host remote_path archive_path skip_backup w =
     (let w1 = print (''[1/3] Uploading archive to '' @ host @ '':'' @ remote_tmp remote_path) w
      in case run env [''scp'', archive_path, host @ '':'' @ remote_tmp remote_path] w1 of
           (Inl e, w2) \<Rightarrow> (Inl e, w2)
         | (Inr u, w2) \<Rightarrow>
             (let w3 = print (''[2/3] Deploying to '' @ host @ '':'' @ str remote_path) w2
              in case run env [''ssh'', host, remote_cmd remote_path skip_backup] w3 of
                   (Inl e, w4) \<Rightarrow> (Inl e, w4)
                 | (Inr u', w4) \<Rightarrow>
                     (Inr (),
                      print (if \<not> skip_backup
                             then ''[3/3] Done. Previous install backed up with timestamp suffix.''
                             else ''[3/3] Done.'') w4)))"

definition unlink :: "string \<Rightarrow> world \<Rightarrow> world" where
  "unlink p w = w\<lparr>files := (files w)(p := None)\<rparr>"

text \<open>
  \<open>main\<close> after \<open>parse_args\<close>: the \<open>try ... finally\<close> encloses \<open>deploy\<close> only.
\<close>

definition main :: "env \<Rightarrow> args \<Rightarrow> world \<Rightarrow> (error + unit) \<times> world" where
  "main env a w =
     (case ensure_tools env of
        Inl e \<Rightarrow> (Inl e, w)
      | Inr u \<Rightarrow>
          (let source_dir = resolve env (Path (arg_source a));
               remote_path = Path (arg_remote_path a)
           in case build_archive env source_dir w of
                (Inl e, w1) \<Rightarrow> (Inl e, w1)
              | (Inr archive_path, w1) \<Rightarrow>
                  (case deploy env (arg_host a) remote_path archive_path (arg_skip_backup a) w1 of
                     (r, w2) \<Rightarrow> (r, unlink archive_path w2))))"

text \<open>
  The exit status of the process: \<open>sys.exit\<close> with a message prints it and exits with
  status 1, as an uncaught exception does.
\<close>

fun exit_status :: "error + unit \<Rightarrow> nat" where
  "exit_status (Inr u) = 0"
| "exit_status (Inl e) = 1"

definition initial :: world where
  "initial = \<lparr>files = Map.empty, events = [], stdout = []\<rparr>"

text \<open>
  On the device, the backup step of the remote command is guarded by \<open>if [ -d name ]\<close>: a
  backup archive is written exactly when the step is part of the command and the target
  directory exists.
\<close>

definition backup_made :: "env \<Rightarrow> bool \<Rightarrow> bool" where
  "backup_made env skip_backup = (\<not> skip_backup \<and> remote_has_target env)"

section \<open>How the remote shell reads a word\<close>

text \<open>
  Quote removal of the POSIX shell for one word without expansions (Shell Command Language,
  2.2 Quoting): single quotes keep every character up to the next single quote; double
  quotes keep every character except \<open>$\<close>, the backquote and the backslash; outside quotes
  a word ends, or means something else, at an operator, blank, expansion or pattern
  character. \<open>sh_word Unquoted s = Some v\<close> says that the shell reads \<open>s\<close> as the single
  literal word \<open>v\<close>; \<open>None\<close> that it does not read \<open>s\<close> as one literal word.
\<close>

datatype quoting = Unquoted | SingleQuoted | DoubleQuoted

definition sh_special :: "char \<Rightarrow> bool" where
  "sh_special c =
     (c \<in> set (''|&;<>()$ *?[#~'' @ [CHR 0x60, CHR 0x5C, CHR 0x22, CHR 0x27, CHR 0x09, CHR 0x0A]))"

fun sh_word :: "quoting \<Rightarrow> string \<Rightarrow> string option" where
  "sh_word Unquoted [] = Some []"
| "sh_word Unquoted (c # cs) =
     (if c = sq then sh_word SingleQuoted cs
      else if c = dq then sh_word DoubleQuoted cs
      else if sh_special c then None
      else map_option ((#) c) (sh_word Unquoted cs))"
| "sh_word SingleQuoted [] = None"
| "sh_word SingleQuoted (c # cs) =
     (if c = sq then sh_word Unquoted cs
      else map_option ((#) c) (sh_word SingleQuoted cs))"
| "sh_word DoubleQuoted [] = None"
| "sh_word DoubleQuoted (c # cs) =
     (if c = dq then sh_word Unquoted cs
      else if c = CHR ''$'' \<or> c = CHR 0x60 \<or> c = CHR 0x5C then None
      else map_option ((#) c) (sh_word DoubleQuoted cs))"

section \<open>The time stamp of the backup\<close>











section \<open>An example machine\<close>

text \<open>
  A small machine for concrete runs: the operator works in \<open>/home/op\<close>, which holds the
  project \<open>proj\<close>, a virtual environment \<open>venv\<close> and a directory \<open>locked\<close> with a file that
  cannot be read.
\<close>

definition example_fs :: node where
  "example_fs =
     Dir True
       [(''home'', Dir True
          [(''op'', Dir True
             [(''locked'', Dir True [(''main.py'', Reg True), (''secret.key'', Reg False)]),
              (''proj'', Dir True
                 [(''.git'', Dir True [(''config'', Reg True)]),
                  (''app.py'', Reg True),
                  (''app.pyc'', Reg True)]),
              (''venv'', Dir True [(''app.py'', Reg True)])])])]"

definition example_env :: env where
  "example_env =
     \<lparr>which = (\<lambda>cmd. True), cwd = [''home'', ''op''], fs = example_fs,
      tmp_name = ''/tmp/tmpk3v9_q1x.tar.gz'', run_ok = (\<lambda>cmd. True),
      remote_has_target = False\<rparr>"

definition example_args :: args where
  "example_args =
     \<lparr>arg_host = ''root@10.1.87.45'', arg_remote_path = ''/data/apps/dbus-serialbattery'',
      arg_source = ''proj'', arg_skip_backup = False\<rparr>"

section \<open>Properties of paths and of the path filter\<close>

lemmas eval_defs = main_def ensure_tools_def build_archive_def is_dir_def node_at_def resolve_def
  Path_def splitroot_def path_name_def str_def parent_def parts_def tar_filter_def gettarinfo_def
  os_path_join_def IGNORE_NAMES_def IGNORE_SUFFIXES_def endswith_def deploy_def run_def print_def
  remote_tmp_def remote_base_def remote_cmd_def backup_cmd_def quote_def safe_char_def
  str_replace_def unlink_def example_env_def example_fs_def example_args_def initial_def Let_def

lemma str_split_not_Nil: "str_split sep s \<noteq> []"
  by (induction s) (auto split: list.splits)

lemma splitroot_cases:
  "splitroot s = ([], s) \<and> take 1 s \<noteq> ''/'' \<or>
   (\<exists>rel. splitroot s = (''/'', rel) \<and> s = CHR ''/'' # rel) \<or>
   (\<exists>rel. splitroot s = (''//'', rel) \<and> s = CHR ''/'' # CHR ''/'' # rel)"
proof (cases s)
  case Nil
  then show ?thesis by (simp add: splitroot_def)
next
  case (Cons a as)
  show ?thesis
  proof (cases as)
    case Nil
    with Cons show ?thesis by (auto simp: splitroot_def)
  next
    case (Cons b bs)
    with \<open>s = a # as\<close> show ?thesis by (cases bs) (auto simp: splitroot_def)
  qed
qed

lemma tail_Path_filter:
  "tail (Path s) = filter (\<lambda>x. x \<noteq> [] \<and> x \<noteq> ''.'') (str_split CHR ''/'' s)"
  using splitroot_cases [of s] by (auto simp: Path_def)

lemma root_Path_cases: "root (Path s) = [] \<or> root (Path s) = ''/'' \<or> root (Path s) = ''//''"
  using splitroot_cases [of s] by (auto simp: Path_def)

lemma root_not_ignored: "root (Path s) \<notin> IGNORE_NAMES"
  using root_Path_cases [of s] by (auto simp: IGNORE_NAMES_def)

lemma ignored_nontrivial: "c \<in> IGNORE_NAMES \<Longrightarrow> c \<noteq> [] \<and> c \<noteq> ''.''"
  by (auto simp: IGNORE_NAMES_def)

lemma parts_ignored_iff:
  "(\<exists>part \<in> set (parts (Path s)). part \<in> IGNORE_NAMES) =
   (\<exists>c \<in> set (str_split CHR ''/'' s). c \<in> IGNORE_NAMES)"
  using root_not_ignored [of s] ignored_nontrivial
  by (auto simp: parts_def tail_Path_filter)

lemma path_name_final_component: "path_name (Path s) = final_component s"
  by (simp add: path_name_def final_component_def tail_Path_filter split: list.splits)

text \<open>
  Claim C1. The path filter excludes an entry exactly when some component of its path
  (split on the directory separator) is in the excluded-names set or its final name
  component ends with an excluded suffix; every other entry is returned unchanged. The
  filter is a function of the entry alone.
\<close>

theorem tar_filter_excludes_iff:
  "(tar_filter tarinfo = None) = spec_excluded (name tarinfo) \<and>
   (\<not> spec_excluded (name tarinfo) \<longrightarrow> tar_filter tarinfo = Some tarinfo)"
  unfolding tar_filter_def spec_excluded_def Let_def parts_ignored_iff path_name_final_component
  by simp

theorem tar_filter_excludes_iff_witness:
  "\<not> spec_excluded ''proj/app.py'' \<and>
   tar_filter \<lparr>name = ''proj/app.py'', tartype = REGTYPE\<rparr> =
     Some \<lparr>name = ''proj/app.py'', tartype = REGTYPE\<rparr> \<and>
   spec_excluded ''proj/.git/config'' \<and>
   tar_filter \<lparr>name = ''proj/.git/config'', tartype = REGTYPE\<rparr> = None"
proof -
  have a: "\<not> spec_excluded ''proj/app.py''"
    by (simp add: spec_excluded_def final_component_def IGNORE_NAMES_def IGNORE_SUFFIXES_def
        endswith_def)
  have b: "spec_excluded ''proj/.git/config''"
    by (simp add: spec_excluded_def final_component_def IGNORE_NAMES_def IGNORE_SUFFIXES_def
        endswith_def)
  show ?thesis
    using a b tar_filter_excludes_iff [of "\<lparr>name = ''proj/app.py'', tartype = REGTYPE\<rparr>"]
      tar_filter_excludes_iff [of "\<lparr>name = ''proj/.git/config'', tartype = REGTYPE\<rparr>"]
    by simp
qed

section \<open>Validation\<close>

lemma in_set_tl: "x \<in> set (tl xs) \<Longrightarrow> x \<in> set xs"
  by (cases xs) auto






text \<open>
  Claim C5. When \<open>ssh\<close> or \<open>scp\<close> is missing on the operator's machine, the run ends at
  once with the missing-tool message and a non-zero status; the world is as it was, so no
  archive file has been created and no external command has been spawned.
\<close>

theorem missing_tool_is_fatal:
  "\<not> (which env ''ssh'' \<and> which env ''scp'') \<Longrightarrow>
     main env a w =
       (Inl (SystemExit (''Missing required commands: '' @
          str_join '', '' (filter (\<lambda>cmd. \<not> which env cmd) [''ssh'', ''scp'']))), w) \<and>
     exit_status (fst (main env a w)) \<noteq> 0"
  by (auto simp: main_def ensure_tools_def Let_def)

theorem missing_tool_is_fatal_witness:
  "\<not> (which (example_env\<lparr>which := (\<lambda>cmd. cmd = ''ssh'')\<rparr>) ''ssh'' \<and>
       which (example_env\<lparr>which := (\<lambda>cmd. cmd = ''ssh'')\<rparr>) ''scp'') \<and>
   main (example_env\<lparr>which := (\<lambda>cmd. cmd = ''ssh'')\<rparr>) example_args initial =
     (Inl (SystemExit ''Missing required commands: scp''), initial)"
  using missing_tool_is_fatal
    [of "example_env\<lparr>which := (\<lambda>cmd. cmd = ''ssh'')\<rparr>" example_args initial]
  by simp



section \<open>The archive\<close>

lemma str_split_no_sep: "sep \<notin> set a \<Longrightarrow> str_split sep a = [a]"
  by (induction a) auto

lemma str_split_append_no_sep:
  "sep \<notin> set a \<Longrightarrow> str_split sep (a @ sep # b) = a # str_split sep b"
  by (induction a) auto

lemma ignored_no_sep: "c \<in> IGNORE_NAMES \<Longrightarrow> CHR ''/'' \<notin> set c"
  by (auto simp: IGNORE_NAMES_def)

lemma tar_filter_ignored_name:
  "c \<in> IGNORE_NAMES \<Longrightarrow> tar_filter \<lparr>name = c, tartype = t\<rparr> = None"
  using ignored_no_sep [of c]
  by (simp add: tar_filter_def parts_ignored_iff str_split_no_sep)

lemma tar_filter_below_ignored:
  "c \<in> IGNORE_NAMES \<Longrightarrow> tar_filter \<lparr>name = c @ ''/'' @ rest, tartype = t\<rparr> = None"
  using ignored_no_sep [of c]
  by (simp add: tar_filter_def parts_ignored_iff str_split_append_no_sep)

lemma lstrip_ignored: "c \<in> IGNORE_NAMES \<Longrightarrow> dropWhile (\<lambda>x. x = CHR ''/'') c = c"
  by (auto simp: IGNORE_NAMES_def)

text \<open>
  Claim C10. When the base name of the source directory is itself an excluded name, the
  archive is built without any member: the root entry is excluded, nothing below it is
  visited, and every path below that base name would be excluded as well.
\<close>

theorem excluded_base_name_gives_empty_archive:
  assumes "is_dir env source" and "path_name source \<in> IGNORE_NAMES"
  shows "build_archive env source w =
           (Inr (tmp_name env), w\<lparr>files := (files w)(tmp_name env \<mapsto> [])\<rparr>) \<and>
         (\<forall>rest t. tar_filter \<lparr>name = path_name source @ ''/'' @ rest, tartype = t\<rparr> = None)"
proof -
  from assms(1) obtain listable entries where n: "node_at env source = Some (Dir listable entries)"
    by (auto simp: is_dir_def split: option.splits node.splits)
  have "tar_add (Dir listable entries) (path_name source) = ([], None)"
    using assms(2) by (simp add: gettarinfo_def lstrip_ignored tar_filter_ignored_name)
  with assms(1) n have "build_archive env source w =
           (Inr (tmp_name env), w\<lparr>files := (files w)(tmp_name env \<mapsto> [])\<rparr>)"
    by (simp add: build_archive_def Let_def)
  with assms(2) show ?thesis
    using tar_filter_below_ignored by blast
qed

theorem excluded_base_name_gives_empty_archive_witness:
  "is_dir example_env (resolve example_env (Path ''venv'')) \<and>
   path_name (resolve example_env (Path ''venv'')) \<in> IGNORE_NAMES \<and>
   build_archive example_env (resolve example_env (Path ''venv'')) initial =
     (Inr (tmp_name example_env),
      initial\<lparr>files := (files initial)(tmp_name example_env \<mapsto> [])\<rparr>)"
proof -
  have a: "is_dir example_env (resolve example_env (Path ''venv''))"
    by (simp add: is_dir_def node_at_def resolve_def Path_def splitroot_def example_env_def
        example_fs_def)
  have b: "path_name (resolve example_env (Path ''venv'')) \<in> IGNORE_NAMES"
    by (simp add: resolve_def Path_def splitroot_def example_env_def path_name_def
        IGNORE_NAMES_def)
  show ?thesis
    using a b excluded_base_name_gives_empty_archive [OF a b, of initial] by simp
qed

lemma str_split_elems_no_sep: "c \<in> set (str_split sep s) \<Longrightarrow> sep \<notin> set c"
proof (induction s arbitrary: c)
  case Nil
  then show ?case by simp
next
  case (Cons x xs)
  show ?case
  proof (cases "x = sep")
    case True
    with Cons show ?thesis by auto
  next
    case False
    obtain w ws where sp: "str_split sep xs = w # ws"
      using str_split_not_Nil [of sep xs] by (cases "str_split sep xs") auto
    with Cons.prems False have "c = x # w \<or> c \<in> set ws" by auto
    with Cons.IH sp False show ?thesis by auto
  qed
qed

lemma in_set_normalise: "x \<in> set (normalise acc cs) \<Longrightarrow> x \<in> set acc \<or> x \<in> set cs"
proof (induction cs arbitrary: acc)
  case Nil
  then show ?case by simp
next
  case (Cons c cs)
  show ?case
  proof (cases "c = ''..''")
    case True
    with Cons.prems have "x \<in> set (normalise (tl acc) cs)" by simp
    from Cons.IH [OF this] show ?thesis by (auto dest: in_set_tl)
  next
    case False
    with Cons.prems have "x \<in> set (normalise (c # acc) cs)" by simp
    from Cons.IH [OF this] show ?thesis by auto
  qed
qed

lemma tail_Path_no_sep: "c \<in> set (tail (Path s)) \<Longrightarrow> CHR ''/'' \<notin> set c"
  by (auto simp: tail_Path_filter dest: str_split_elems_no_sep)

lemma tail_resolve_no_sep:
  assumes "\<forall>c \<in> set (cwd env). CHR ''/'' \<notin> set c" and "c \<in> set (tail (resolve env (Path s)))"
  shows "CHR ''/'' \<notin> set c"
proof -
  from assms(2) have "c \<in> set (cwd env) \<or> c \<in> set (tail (Path s))"
    by (auto simp: resolve_def split: if_splits dest: in_set_normalise)
  with assms(1) show ?thesis by (auto dest: tail_Path_no_sep)
qed

lemma path_name_resolve_no_sep:
  assumes "\<forall>c \<in> set (cwd env). CHR ''/'' \<notin> set c"
  shows "CHR ''/'' \<notin> set (path_name (resolve env (Path s)))"
proof (cases "tail (resolve env (Path s)) = []")
  case True
  then show ?thesis by (simp add: path_name_def)
next
  case False
  then have "last (tail (resolve env (Path s))) \<in> set (tail (resolve env (Path s)))"
    by simp
  with assms have "CHR ''/'' \<notin> set (last (tail (resolve env (Path s))))"
    by (rule tail_resolve_no_sep)
  with False show ?thesis by (simp add: path_name_def)
qed

lemma lstrip_no_sep: "CHR ''/'' \<notin> set s \<Longrightarrow> dropWhile (\<lambda>c. c = CHR ''/'') s = s"
  by (cases s) auto

lemma tar_add_Dir_head:
  assumes "tar_filter \<lparr>name = dropWhile (\<lambda>c. c = CHR ''/'') arcname, tartype = DIRTYPE\<rparr> \<noteq> None"
  shows "\<exists>ms. fst (tar_add (Dir listable entries) arcname) =
           \<lparr>name = dropWhile (\<lambda>c. c = CHR ''/'') arcname, tartype = DIRTYPE\<rparr> # ms"
  using assms
  by (auto simp: gettarinfo_def tar_filter_def Let_def split: prod.splits if_splits)

lemma str_split_snoc_sep: "str_split sep (s @ [sep]) = str_split sep s @ [[]]"
proof (induction s)
  case Nil
  then show ?case by simp
next
  case (Cons x xs)
  then show ?case
    using str_split_not_Nil [of sep xs] by (cases "str_split sep xs") auto
qed

lemma tail_Path_trailing_sep: "tail (Path (s @ ''/'')) = tail (Path s)"
  by (simp add: tail_Path_filter str_split_snoc_sep)

lemma root_Path_empty_iff: "(root (Path s) = []) = (take 1 s \<noteq> ''/'')"
  using splitroot_cases [of s] by (auto simp: Path_def)

lemma resolve_trailing_sep:
  assumes "s \<noteq> []"
  shows "resolve env (Path (s @ ''/'')) = resolve env (Path s)"
proof -
  from assms have "take 1 (s @ ''/'') = take 1 s" by (cases s) auto
  then have "(root (Path (s @ ''/'')) = []) = (root (Path s) = [])"
    by (simp only: root_Path_empty_iff)
  then show ?thesis
    unfolding resolve_def tail_Path_trailing_sep by simp
qed

text \<open>
  Claim C2, as stated, fails for a source directory whose base name the filter excludes:
  the archive of \<open>/home/op/venv\<close> has no member at all, hence no root entry.
\<close>

theorem archive_root_entry_counterexample:
  "is_dir example_env (Path ''/home/op/venv'') \<and>
   fst (build_archive example_env (resolve example_env (Path ''/home/op/venv'')) initial) =
     Inr ''/tmp/tmpk3v9_q1x.tar.gz'' \<and>
   files (snd (build_archive example_env (resolve example_env (Path ''/home/op/venv'')) initial))
     ''/tmp/tmpk3v9_q1x.tar.gz'' = Some []"
  by (simp add: eval_defs)

text \<open>
  Claim C2, amended. For a source directory whose base name the path filter does not
  exclude, the first member of the archive is the directory entry named after the base
  name of the resolved source path; that name contains no separator, and a trailing
  separator on the configured path does not change the resolved path.
\<close>

theorem archive_root_entry_is_base_name:
  assumes cwd: "\<forall>c \<in> set (cwd env). CHR ''/'' \<notin> set c"
    and src: "source = resolve env (Path src)"
    and dir: "is_dir env source"
    and keep: "tar_filter \<lparr>name = path_name source, tartype = DIRTYPE\<rparr> \<noteq> None"
  shows "(\<exists>ms. files (snd (build_archive env source w)) (tmp_name env) =
            Some (\<lparr>name = path_name source, tartype = DIRTYPE\<rparr> # ms)) \<and>
         CHR ''/'' \<notin> set (path_name source) \<and>
         (src \<noteq> [] \<longrightarrow> resolve env (Path (src @ ''/'')) = source)"
proof -
  from dir obtain listable entries where n: "node_at env source = Some (Dir listable entries)"
    by (auto simp: is_dir_def split: option.splits node.splits)
  have nosep: "CHR ''/'' \<notin> set (path_name source)"
    using cwd src by (simp add: path_name_resolve_no_sep)
  then have ls: "dropWhile (\<lambda>c. c = CHR ''/'') (path_name source) = path_name source"
    by (rule lstrip_no_sep)
  from keep ls obtain ms where
    "fst (tar_add (Dir listable entries) (path_name source)) =
       \<lparr>name = path_name source, tartype = DIRTYPE\<rparr> # ms"
    using tar_add_Dir_head [of "path_name source" listable entries] by auto
  with dir n have "files (snd (build_archive env source w)) (tmp_name env) =
            Some (\<lparr>name = path_name source, tartype = DIRTYPE\<rparr> # ms)"
    by (auto simp: build_archive_def Let_def split: prod.splits option.splits)
  with nosep src show ?thesis
    by (auto simp: resolve_trailing_sep)
qed

theorem archive_root_entry_is_base_name_witness:
  "cwd example_env = [''home'', ''op''] \<and>
   is_dir example_env (resolve example_env (Path ''proj'')) \<and>
   tar_filter \<lparr>name = ''proj'', tartype = DIRTYPE\<rparr> \<noteq> None \<and>
   (\<exists>ms. files (snd (build_archive example_env (resolve example_env (Path ''proj'')) initial))
            (tmp_name example_env) = Some (\<lparr>name = ''proj'', tartype = DIRTYPE\<rparr> # ms)) \<and>
   resolve example_env (Path ''proj/'') = resolve example_env (Path ''proj'')"
proof -
  have a: "\<forall>c \<in> set (cwd example_env). CHR ''/'' \<notin> set c"
    by (simp add: example_env_def)
  have b: "is_dir example_env (resolve example_env (Path ''proj''))"
    by (simp add: eval_defs)
  have n: "path_name (resolve example_env (Path ''proj'')) = ''proj''"
    by (simp add: eval_defs)
  have c: "tar_filter \<lparr>name = path_name (resolve example_env (Path ''proj'')),
             tartype = DIRTYPE\<rparr> \<noteq> None"
    unfolding n by (simp add: eval_defs)
  have d: "cwd example_env = [''home'', ''op'']"
    by (simp add: example_env_def)
  show ?thesis
    using b c d archive_root_entry_is_base_name [OF a refl b c, of initial]
    by (simp add: n)
qed

section \<open>Cleanup of the temporary archive\<close>

text \<open>
  Claim C3 does not hold where the archive builder fails after the temporary file has
  been created: \<open>locked\<close> contains a file that cannot be read, \<open>TarFile.add\<close> raises, and the
  run ends with the temporary file still present.
\<close>

theorem archive_failure_leaves_temporary_file:
  "main example_env (example_args\<lparr>arg_source := ''locked''\<rparr>) initial =
     (Inl PermissionError,
      initial\<lparr>files := [''/tmp/tmpk3v9_q1x.tar.gz'' \<mapsto>
         [\<lparr>name = ''locked'', tartype = DIRTYPE\<rparr>, \<lparr>name = ''locked/main.py'', tartype = REGTYPE\<rparr>]]\<rparr>)"
  by (simp add: eval_defs)

text \<open>
  Where the archive has been built, the temporary file is gone when \<open>main\<close> returns,
  whatever \<open>deploy\<close> did.
\<close>

lemma main_unlinks_after_build:
  assumes "ensure_tools env = Inr ()"
    and "build_archive env (resolve env (Path (arg_source a))) w = (Inr archive_path, w1)"
  shows "files (snd (main env a w)) archive_path = None"
  using assms by (simp add: main_def Let_def unlink_def split: prod.splits)

section \<open>The completion message\<close>

text \<open>
  Claim C8, as stated, fails: the target directory does not exist on the device, no
  backup is made, and the run, without \<open>--skip-backup\<close>, still reports the previous install
  as backed up.
\<close>

theorem completion_message_counterexample:
  "\<not> remote_has_target example_env \<and>
   \<not> backup_made example_env (arg_skip_backup example_args) \<and>
   fst (main example_env example_args initial) = Inr () \<and>
   last (stdout (snd (main example_env example_args initial))) =
     ''[3/3] Done. Previous install backed up with timestamp suffix.'' \<and>
   last (stdout (snd (main example_env example_args initial))) \<noteq> ''[3/3] Done.''"
  by (simp add: eval_defs backup_made_def)

lemma deploy_message:
  "fst (deploy env host remote_path archive_path skip_backup w) = Inr () \<Longrightarrow>
   last (stdout (snd (deploy env host remote_path archive_path skip_backup w))) =
     (if skip_backup then ''[3/3] Done.''
      else ''[3/3] Done. Previous install backed up with timestamp suffix.'')"
  by (cases skip_backup) (auto simp: deploy_def run_def print_def Let_def split: if_splits)

lemma stdout_unlink: "stdout (unlink p w) = stdout w"
  by (simp add: unlink_def)

lemma ensure_tools_ignores_remote_state:
  "ensure_tools (env\<lparr>remote_has_target := b\<rparr>) = ensure_tools env"
  by (simp add: ensure_tools_def)

lemma resolve_ignores_remote_state:
  "resolve (env\<lparr>remote_has_target := b\<rparr>) p = resolve env p"
  by (simp add: resolve_def)

lemma build_archive_ignores_remote_state:
  "build_archive (env\<lparr>remote_has_target := b\<rparr>) source w = build_archive env source w"
  by (simp add: build_archive_def is_dir_def node_at_def resolve_ignores_remote_state)

lemma run_ignores_remote_state:
  "run (env\<lparr>remote_has_target := b\<rparr>) cmd w = run env cmd w"
  by (simp add: run_def)

lemma deploy_ignores_remote_state:
  "deploy (env\<lparr>remote_has_target := b\<rparr>) host remote_path archive_path skip_backup w =
   deploy env host remote_path archive_path skip_backup w"
  unfolding deploy_def run_ignores_remote_state by (rule refl)

lemma main_ignores_remote_state:
  "main (env\<lparr>remote_has_target := b\<rparr>) a w = main env a w"
  unfolding main_def ensure_tools_ignores_remote_state resolve_ignores_remote_state
    build_archive_ignores_remote_state deploy_ignores_remote_state
  by (rule refl)

text \<open>
  Claim C8, amended. On completion the message tells whether the backup step was requested:
  it is the plain one exactly when \<open>--skip-backup\<close> was passed, and the run does not depend
  on whether the target directory existed on the device.
\<close>

theorem completion_message_follows_flag:
  assumes "fst (main env a w) = Inr ()"
  shows "last (stdout (snd (main env a w))) =
           (if arg_skip_backup a then ''[3/3] Done.''
            else ''[3/3] Done. Previous install backed up with timestamp suffix.'') \<and>
         main (env\<lparr>remote_has_target := b\<rparr>) a w = main env a w"
proof -
  from assms obtain archive_path w1 where
    b: "build_archive env (resolve env (Path (arg_source a))) w = (Inr archive_path, w1)"
    and t: "ensure_tools env = Inr ()"
    by (auto simp: main_def Let_def split: sum.splits prod.splits)
  let ?d = "deploy env (arg_host a) (Path (arg_remote_path a)) archive_path (arg_skip_backup a) w1"
  from b t have m: "main env a w = (fst ?d, unlink archive_path (snd ?d))"
    by (simp add: main_def Let_def split: prod.splits)
  with assms have "fst ?d = Inr ()" by simp
  from deploy_message [OF this] m show ?thesis
    by (simp add: stdout_unlink main_ignores_remote_state)
qed

theorem completion_message_follows_flag_witness:
  "fst (main example_env (example_args\<lparr>arg_skip_backup := True\<rparr>) initial) = Inr () \<and>
   last (stdout (snd (main example_env (example_args\<lparr>arg_skip_backup := True\<rparr>) initial))) =
     ''[3/3] Done.'' \<and>
   main (example_env\<lparr>remote_has_target := True\<rparr>) (example_args\<lparr>arg_skip_backup := True\<rparr>)
     initial =
   main example_env (example_args\<lparr>arg_skip_backup := True\<rparr>) initial"
proof -
  have a: "fst (main example_env (example_args\<lparr>arg_skip_backup := True\<rparr>) initial) = Inr ()"
    by (simp add: eval_defs)
  have b: "arg_skip_backup (example_args\<lparr>arg_skip_backup := True\<rparr>)"
    by simp
  show ?thesis
    using a b completion_message_follows_flag [OF a, of True] by simp
qed

section \<open>The remote command\<close>



section \<open>Quoting\<close>

text \<open>
  Every string that \<open>shlex.quote\<close> returns is read back by the shell as the one literal
  word it was made from, also when more safe characters follow it.
\<close>

lemma safe_char_plain: "safe_char c \<Longrightarrow> \<not> sh_special c \<and> c \<noteq> sq \<and> c \<noteq> dq"
  by (auto simp: safe_char_def sh_special_def sq_def dq_def)

lemma map_option_append_Nil: "map_option ((@) []) x = x"
  by (cases x) simp_all

lemma map_option_ident: "map_option (\<lambda>a. a) x = x"
  by (cases x) simp_all

lemma sh_word_safe:
  "list_all safe_char s \<Longrightarrow> sh_word Unquoted (s @ r) = map_option ((@) s) (sh_word Unquoted r)"
proof (induction s)
  case Nil
  then show ?case by (simp add: map_option_append_Nil map_option_ident)
next
  case (Cons c s)
  then show ?case
    using safe_char_plain [of c] by (simp add: option.map_comp comp_def)
qed

lemma sh_word_single:
  "sh_word SingleQuoted (str_replace sq [sq, dq, sq, dq, sq] s @ sq # r) =
     map_option ((@) s) (sh_word Unquoted r)"
proof (induction s)
  case Nil
  then show ?case by (simp add: str_replace_def map_option_append_Nil map_option_ident)
next
  case (Cons c s)
  then show ?case
    by (simp add: str_replace_def option.map_comp comp_def sq_def dq_def sh_special_def)
qed

lemma sh_word_quote_append:
  "sh_word Unquoted (quote s @ r) = map_option ((@) s) (sh_word Unquoted r)"
proof (cases "s = []")
  case True
  then show ?thesis by (simp add: quote_def sq_def map_option_append_Nil)
next
  case False
  show ?thesis
  proof (cases "list_all safe_char s")
    case True
    with False show ?thesis by (simp add: quote_def sh_word_safe)
  next
    case unsafe: False
    with False show ?thesis
      using sh_word_single [of s r] by (simp add: quote_def)
  qed
qed

lemma sh_word_quote: "sh_word Unquoted (quote s) = Some s"
  using sh_word_quote_append [of s "[]"] by simp


section \<open>The backup step\<close>




























end
